theory Spec2Isabelle
  imports Main "HOL-Library.Sublist" "HOL-Library.Code_Target_Numeral"
begin

section \<open>Strings\<close>

text \<open>
  A JavaScript string is a sequence of UTF-16 code units. The model covers the code units
  U+0000 to U+00FF: a string is a \<open>char list\<close> and \<open>of_char c\<close> is the code unit of
  \<open>c\<close>. On this range \<open>toLowerCase\<close> maps one code unit to one code unit, so the
  functions below are the runtime's own on every string of the range.
\<close>

definition isWhiteSpace :: "char \<Rightarrow> bool" where
  \<comment> \<open>WhiteSpace and LineTerminator of ECMAScript below U+0100: TAB, LF, VT, FF, CR, SP, NBSP.\<close>
  "isWhiteSpace c = (let n = (of_char c :: nat) in (9 \<le> n \<and> n \<le> 13) \<or> n = 32 \<or> n = 160)"

definition isDigit :: "char \<Rightarrow> bool" where
  "isDigit c = (let n = (of_char c :: nat) in 48 \<le> n \<and> n \<le> 57)"

definition toLowerCase_unit :: "char \<Rightarrow> char" where
  \<comment> \<open>A to Z, and the Latin-1 capitals U+00C0 to U+00DE without the multiplication sign.\<close>
  "toLowerCase_unit c =
     (let n = (of_char c :: nat)
      in if (65 \<le> n \<and> n \<le> 90) \<or> (192 \<le> n \<and> n \<le> 222 \<and> n \<noteq> 215) then char_of (n + 32) else c)"

definition toLowerCase :: "string \<Rightarrow> string" where
  "toLowerCase s = map toLowerCase_unit s"

definition toUpperCase_unit :: "char \<Rightarrow> char" where
  \<comment> \<open>a to z and U+00E0 to U+00FE without the division sign. The upper-case forms of
      U+00B5, U+00DF and U+00FF are not single code units of the range; the source applies
      \<open>toUpperCase\<close> to the tool names \<open>insert\<close>, \<open>update\<close> and \<open>delete\<close> only.\<close>
  "toUpperCase_unit c =
     (let n = (of_char c :: nat)
      in if (97 \<le> n \<and> n \<le> 122) \<or> (224 \<le> n \<and> n \<le> 254 \<and> n \<noteq> 247) then char_of (n - 32) else c)"

definition toUpperCase :: "string \<Rightarrow> string" where
  "toUpperCase s = map toUpperCase_unit s"

definition trimStart :: "string \<Rightarrow> string" where
  "trimStart s = dropWhile isWhiteSpace s"

definition trim :: "string \<Rightarrow> string" where
  "trim s = rev (dropWhile isWhiteSpace (rev (dropWhile isWhiteSpace s)))"

definition startsWith :: "string \<Rightarrow> string \<Rightarrow> bool" where
  \<comment> \<open>\<open>s.startsWith(p)\<close>\<close>
  "startsWith s p = prefix p s"

definition quoted :: "string \<Rightarrow> string" where
  \<comment> \<open>the text between two double quote characters\<close>
  "quoted s = CHR 0x22 # s @ [CHR 0x22]"

subsection \<open>Decimal text of integers\<close>

fun decimal :: "nat \<Rightarrow> string" where
  "decimal n = (if n < 10 then [char_of (48 + n)] else decimal (n div 10) @ [char_of (48 + n mod 10)])"

declare decimal.simps [simp del]

definition isSafeInteger :: "int \<Rightarrow> bool" where
  \<comment> \<open>\<open>Number.isSafeInteger\<close>: at most \<open>2^53 - 1\<close> in magnitude. A Number with such a value
      holds it exactly.\<close>
  "isSafeInteger n = (- (2 ^ 53 - 1) \<le> n \<and> n \<le> 2 ^ 53 - 1)"

definition integer_toString :: "int \<Rightarrow> string" where
  \<comment> \<open>\<open>BigInt.prototype.toString()\<close> on every bigint, and \<open>Number::toString\<close> on a Number
      whose value is a safe integer: the decimal digits of the value, after a minus sign
      when negative. A Number above the safe range prints the shortest digits that read
      back as the same double, followed by zeros, which this function does not give.\<close>
  "integer_toString i = (if i < 0 then CHR ''-'' # decimal (nat (- i)) else decimal (nat i))"

fun digits_value :: "string \<Rightarrow> nat" where
  \<comment> \<open>the number a string of decimal digits denotes, read from the left\<close>
  "digits_value s = foldl (\<lambda>acc c. 10 * acc + (of_char c - 48)) 0 s"

subsection \<open>parseInt with radix 10\<close>

definition parseInt :: "string \<Rightarrow> int option" where
  \<comment> \<open>\<open>parseInt(s, 10)\<close>: leading white space is skipped, one sign is read, then the
      longest run of decimal digits; \<open>None\<close> is NaN (no digit at that place). The Number
      returned is the double nearest to the integer, which is the integer itself up to
      \<open>2^53\<close>.\<close>
  "parseInt s =
     (let S = trimStart s;
          sign = (case S of c # _ \<Rightarrow> if c = CHR ''-'' then - 1 else 1 | [] \<Rightarrow> (1 :: int));
          S' = (case S of c # r \<Rightarrow> if c = CHR ''+'' \<or> c = CHR ''-'' then r else S | [] \<Rightarrow> S);
          Z = takeWhile isDigit S'
      in if Z = [] then None else Some (sign * int (digits_value Z)))"

section \<open>Configuration read from the process environment\<close>

type_synonym env = "string \<Rightarrow> string option"

record connectionConfig =
  host :: string
  user :: string
  password :: string
  database :: string
  port :: "int option" \<comment> \<open>\<open>None\<close> is NaN\<close>

definition MYSQL_PORT :: "env \<Rightarrow> int option" where
  \<comment> \<open>\<open>process.env.MYSQL_PORT ? parseInt(process.env.MYSQL_PORT, 10) : 3306\<close>; the unset
      variable and the empty string are the falsy values.\<close>
  "MYSQL_PORT e =
     (case e ''MYSQL_PORT'' of
        None \<Rightarrow> Some 3306
      | Some s \<Rightarrow> if s = [] then Some 3306 else parseInt s)"

definition MYSQL_ALLOW_WRITE_OPS :: "env \<Rightarrow> bool" where
  \<comment> \<open>\<open>process.env.MYSQL_ALLOW_WRITE_OPS === 'true'\<close>\<close>
  "MYSQL_ALLOW_WRITE_OPS e = (e ''MYSQL_ALLOW_WRITE_OPS'' = Some ''true'')"

definition falsy :: "string option \<Rightarrow> bool" where
  \<comment> \<open>\<open>!v\<close> for an environment variable: unset, or the empty string\<close>
  "falsy v = (case v of None \<Rightarrow> True | Some s \<Rightarrow> s = [])"

record server_state =
  connection_config :: connectionConfig
  allow_write_ops :: bool

definition startup :: "env \<Rightarrow> nat + server_state" where
  \<comment> \<open>The module's top level: \<open>Inl 1\<close> is \<open>process.exit(1)\<close>, \<open>Inr\<close> the constants the
      handlers read afterwards.\<close>
  "startup e =
     (if falsy (e ''MYSQL_HOST'') \<or> falsy (e ''MYSQL_USER'') \<or> falsy (e ''MYSQL_PASSWORD'')
         \<or> falsy (e ''MYSQL_DATABASE'')
      then Inl 1
      else (case (e ''MYSQL_HOST'', e ''MYSQL_USER'', e ''MYSQL_PASSWORD'', e ''MYSQL_DATABASE'') of
              (Some h, Some u, Some p, Some d) \<Rightarrow>
                Inr \<lparr>connection_config = \<lparr>host = h, user = u, password = p, database = d, port = MYSQL_PORT e\<rparr>,
                     allow_write_ops = MYSQL_ALLOW_WRITE_OPS e\<rparr>
            | _ \<Rightarrow> Inl 1))"

section \<open>JavaScript values\<close>

text \<open>
  The values of a request's arguments and of a result set. \<open>JNum n\<close> is a Number
  whose value is the safe integer \<open>n\<close> (\<open>isSafeInteger n\<close>; these print with their exact
  digits); Numbers above the safe range or with a fraction, NaN and the infinities are
  outside the model. \<open>JBigInt\<close> is a bigint of any size. \<open>JObj\<close> lists an object's own enumerable properties in enumeration order, each
  key once.
\<close>

datatype jsval =
    JNull
  | JBool bool
  | JNum int
  | JStr string
  | JBigInt int
  | JArr "jsval list"
  | JObj "(string \<times> jsval) list"

fun typeof :: "jsval \<Rightarrow> string" where
  "typeof JNull = ''object''"
| "typeof (JBool _) = ''boolean''"
| "typeof (JNum _) = ''number''"
| "typeof (JStr _) = ''string''"
| "typeof (JBigInt _) = ''bigint''"
| "typeof (JArr _) = ''object''"
| "typeof (JObj _) = ''object''"

fun sql_property :: "jsval \<Rightarrow> jsval option" where
  \<comment> \<open>\<open>args.sql\<close> on a value that is not null; \<open>None\<close> is undefined\<close>
  "sql_property (JObj kvs) = map_of kvs ''sql''"
| "sql_property _ = None"

definition isValidQueryArgs :: "jsval option \<Rightarrow> string option" where
  \<comment> \<open>The type guard \<open>args is { sql: string }\<close>: \<open>Some (args.sql)\<close> where
      \<open>typeof args === 'object' && args !== null && typeof args.sql === 'string'\<close>, else
      \<open>None\<close>. The argument \<open>None\<close> is undefined (no \<open>arguments\<close> in the request).\<close>
  "isValidQueryArgs args =
     (case args of
        None \<Rightarrow> None
      | Some a \<Rightarrow>
          if typeof a = ''object'' \<and> a \<noteq> JNull
          then (case sql_property a of
                  Some v \<Rightarrow> if typeof v = ''string'' then (case v of JStr s \<Rightarrow> Some s | _ \<Rightarrow> None) else None
                | None \<Rightarrow> None)
          else None)"

definition isValidWriteArgs :: "jsval option \<Rightarrow> string option" where
  \<comment> \<open>the same guard, under its second name\<close>
  "isValidWriteArgs args =
     (case args of
        None \<Rightarrow> None
      | Some a \<Rightarrow>
          if typeof a = ''object'' \<and> a \<noteq> JNull
          then (case sql_property a of
                  Some v \<Rightarrow> if typeof v = ''string'' then (case v of JStr s \<Rightarrow> Some s | _ \<Rightarrow> None) else None
                | None \<Rightarrow> None)
          else None)"

section \<open>JSON.stringify with the source's replacer and an indentation of 2\<close>

definition hex_digit :: "nat \<Rightarrow> char" where
  "hex_digit d = (if d < 10 then char_of (48 + d) else char_of (87 + d))"

definition QuoteJSONString_unit :: "char \<Rightarrow> string" where
  \<comment> \<open>the escape of one code unit below U+0100\<close>
  "QuoteJSONString_unit c =
     (let n = (of_char c :: nat)
      in if n = 8 then [CHR 0x5C, CHR ''b'']
         else if n = 9 then [CHR 0x5C, CHR ''t'']
         else if n = 10 then [CHR 0x5C, CHR ''n'']
         else if n = 12 then [CHR 0x5C, CHR ''f'']
         else if n = 13 then [CHR 0x5C, CHR ''r'']
         else if n = 34 then [CHR 0x5C, CHR 0x22]
         else if n = 92 then [CHR 0x5C, CHR 0x5C]
         else if n < 32 then [CHR 0x5C, CHR ''u'', CHR ''0'', CHR ''0'', hex_digit (n div 16), hex_digit (n mod 16)]
         else [c])"

definition QuoteJSONString :: "string \<Rightarrow> string" where
  "QuoteJSONString s = quoted (concat (map QuoteJSONString_unit s))"

definition replacer :: "jsval \<Rightarrow> jsval" where
  \<comment> \<open>\<open>(key, value) => typeof value === 'bigint' ? value.toString() : value\<close>; the key is
      not read.\<close>
  "replacer v = (if typeof v = ''bigint'' then (case v of JBigInt n \<Rightarrow> JStr (integer_toString n) | _ \<Rightarrow> v) else v)"

fun collect :: "('e + 'a) list \<Rightarrow> 'e + 'a list" where
  \<comment> \<open>the results in order, or the first exception\<close>
  "collect [] = Inr []"
| "collect (Inl e # _) = Inl e"
| "collect (Inr x # rs) = (case collect rs of Inl e \<Rightarrow> Inl e | Inr xs \<Rightarrow> Inr (x # xs))"

fun join :: "string \<Rightarrow> string list \<Rightarrow> string" where
  "join sep [] = []"
| "join sep [x] = x"
| "join sep (x # y # ys) = x @ sep @ join sep (y # ys)"

definition gap :: string where
  \<comment> \<open>the space argument 2\<close>
  "gap = ''  ''"

definition wrap_members :: "char \<Rightarrow> char \<Rightarrow> string \<Rightarrow> string list \<Rightarrow> string" where
  \<comment> \<open>The text of an array or object from its serialised members (\<open>partial\<close>), at the
      indentation \<open>stepback\<close> of the enclosing value.\<close>
  "wrap_members opening closing stepback partial =
     (if partial = [] then [opening, closing]
      else [opening, CHR 0x0A] @ stepback @ gap
           @ join ([CHR '','', CHR 0x0A] @ stepback @ gap) partial
           @ [CHR 0x0A] @ stepback @ [closing])"

function SerializeJSONProperty :: "string \<Rightarrow> jsval \<Rightarrow> string + string" where
  \<comment> \<open>ECMAScript's SerializeJSONProperty, SerializeJSONArray and SerializeJSONObject with a
      replacer function: the replacer is called on the value first, and the result is
      serialised by its type. A bigint that is still a bigint then throws a TypeError
      (\<open>Inl\<close>, with its message).\<close>
  "SerializeJSONProperty indent v =
     (case replacer v of
        JNull \<Rightarrow> Inr ''null''
      | JBool b \<Rightarrow> Inr (if b then ''true'' else ''false'')
      | JNum n \<Rightarrow> Inr (integer_toString n)
      | JStr s \<Rightarrow> Inr (QuoteJSONString s)
      | JBigInt n \<Rightarrow> Inl ''Do not know how to serialize a BigInt''
      | JArr xs \<Rightarrow>
          (case collect (map (\<lambda>x. SerializeJSONProperty (indent @ gap) x) xs) of
             Inl e \<Rightarrow> Inl e
           | Inr partial \<Rightarrow> Inr (wrap_members CHR ''['' CHR '']'' indent partial))
      | JObj kvs \<Rightarrow>
          (case collect (map (\<lambda>kv. case SerializeJSONProperty (indent @ gap) (snd kv) of
                                      Inl e \<Rightarrow> Inl e
                                    | Inr strP \<Rightarrow> Inr (QuoteJSONString (fst kv) @ '': '' @ strP)) kvs) of
             Inl e \<Rightarrow> Inl e
           | Inr partial \<Rightarrow> Inr (wrap_members CHR ''{'' CHR ''}'' indent partial)))"
  by pat_completeness auto
termination
proof (relation "measure (\<lambda>(indent, v). size v)")
  show "wf (measure (\<lambda>(indent, v). size v))" by simp
next
  fix indent :: string and v :: jsval and xs x
  assume "replacer v = JArr xs" and "x \<in> set xs"
  then have "v = JArr xs" by (cases v) (auto simp: replacer_def split: if_splits)
  moreover have "size x < size (JArr xs)"
    using \<open>x \<in> set xs\<close> by (induction xs) auto
  ultimately show "((indent @ gap, x), (indent, v)) \<in> measure (\<lambda>(indent, v). size v)" by simp
next
  fix indent :: string and v :: jsval and kvs kv
  assume "replacer v = JObj kvs" and "kv \<in> set kvs"
  then have "v = JObj kvs" by (cases v) (auto simp: replacer_def split: if_splits)
  moreover have "size (snd kv) < size (JObj kvs)"
    using \<open>kv \<in> set kvs\<close> by (induction kvs) auto
  ultimately show "((indent @ gap, snd kv), (indent, v)) \<in> measure (\<lambda>(indent, v). size v)" by simp
qed

declare SerializeJSONProperty.simps [simp del]

definition JSON_stringify :: "jsval \<Rightarrow> string + string" where
  \<comment> \<open>\<open>JSON.stringify(rows, replacer, 2)\<close>\<close>
  "JSON_stringify v = SerializeJSONProperty [] v"

section \<open>Outcomes, protocol errors and the database driver\<close>

text \<open>
  A tool result \<open>{ content: [{ type: 'text', text }], isError }\<close> is an \<open>outcome\<close>
  (a result without \<open>isError\<close> has \<open>isError = False\<close>); a thrown \<open>McpError\<close> is
  \<open>Throw\<close> with its code and message.
\<close>

record outcome =
  content_text :: string
  isError :: bool

datatype errorCode = InvalidParams | MethodNotFound

datatype response = Return outcome | Throw errorCode string

text \<open>
  The driver (\<open>mysql2/promise\<close>) is outside the repository. A \<open>driver\<close> value fixes what
  the database does in one run: \<open>createConnection\<close> gives \<open>Some message\<close> when the
  promise rejects with an \<open>Error\<close> of that message, \<open>execute\<close> gives \<open>Inl message\<close>
  when it rejects. The first component of the tuple \<open>execute\<close> resolves to is one
  JavaScript object; \<open>execute_result\<close> keeps what the source reads from it: the value
  as \<open>JSON.stringify\<close> traverses it, and the two properties read under the assertion
  \<open>as [mysql.ResultSetHeader, any]\<close> (\<open>None\<close>: the property is not \<open>in\<close> the
  result; the type gives them as Numbers, and the model holds a Number by its value,
  which is exact for the safe integers only). The promise of \<open>connection.end()\<close> has no
  rejecting path in the driver, so \<open>end\<close> is an event and never an exception. The calls
  made on the driver are recorded in order.
\<close>

record execute_result =
  json_view :: jsval
  affectedRows :: "int option"
  insertId :: "int option"

record driver =
  createConnection :: "connectionConfig \<Rightarrow> string option"
  execute :: "string \<Rightarrow> string + execute_result"

datatype db_event = CreateConnection connectionConfig | Execute string | EndConnection

section \<open>The execution gateway\<close>

text \<open>
  Each gateway function is a \<open>try\<close> block and a \<open>catch\<close> block. The \<open>try\<close> block
  is modelled by a function that gives its result (\<open>Inr\<close> the value returned, \<open>Inl\<close>
  the message of the error thrown), whether the variable \<open>connection\<close> has been
  assigned, and the driver calls made so far; the gateway function adds the \<open>catch\<close>
  block.
\<close>

definition try_executeQuery ::
  "connectionConfig \<Rightarrow> driver \<Rightarrow> string \<Rightarrow> (string + outcome) \<times> bool \<times> db_event list" where
  \<comment> \<open>The return expression, with its call of \<open>JSON.stringify\<close>, is inside the
      \<open>try\<close> block and comes after \<open>await connection.end()\<close>.\<close>
  "try_executeQuery connectionConfig drv sqlQuery =
     (case createConnection drv connectionConfig of
        Some message \<Rightarrow> (Inl message, False, [CreateConnection connectionConfig])
      | None \<Rightarrow>
          (case execute drv sqlQuery of
             Inl message \<Rightarrow> (Inl message, True, [CreateConnection connectionConfig, Execute sqlQuery])
           | Inr result \<Rightarrow>
               (case JSON_stringify (json_view result) of
                  Inl message \<Rightarrow>
                    (Inl message, True, [CreateConnection connectionConfig, Execute sqlQuery, EndConnection])
                | Inr t \<Rightarrow>
                    (Inr \<lparr>content_text = t, isError = False\<rparr>, True,
                     [CreateConnection connectionConfig, Execute sqlQuery, EndConnection]))))"

definition executeQuery :: "connectionConfig \<Rightarrow> driver \<Rightarrow> string \<Rightarrow> outcome \<times> db_event list" where
  \<comment> \<open>\<open>catch (error) { if (connection) await connection.end(); return { ..., isError: true } }\<close>\<close>
  "executeQuery connectionConfig drv sqlQuery =
     (case try_executeQuery connectionConfig drv sqlQuery of
        (Inr returned, connection, calls) \<Rightarrow> (returned, calls)
      | (Inl message, connection, calls) \<Rightarrow>
          (\<lparr>content_text = ''MySQL Query Error: '' @ message, isError = True\<rparr>,
           calls @ (if connection then [EndConnection] else [])))"

definition success_message :: "string \<Rightarrow> execute_result \<Rightarrow> string" where
  \<comment> \<open>The \<open>message\<close> variable of \<open>executeWrite\<close> after its two conditional appends. The
      two Numbers go through a template literal; their text here is the source's where
      they are safe integers.\<close>
  "success_message operation result =
     toUpperCase operation @ '' successful.''
     @ (case affectedRows result of
          Some n \<Rightarrow> '' Affected rows: '' @ integer_toString n @ ''.''
        | None \<Rightarrow> [])
     @ (case insertId result of
          Some i \<Rightarrow> if i \<noteq> 0 then '' Insert ID: '' @ integer_toString i @ ''.'' else []
        | None \<Rightarrow> [])"

definition try_executeWrite ::
  "connectionConfig \<Rightarrow> driver \<Rightarrow> string \<Rightarrow> string \<Rightarrow> (string + outcome) \<times> bool \<times> db_event list" where
  "try_executeWrite connectionConfig drv sqlStatement operation =
     (case createConnection drv connectionConfig of
        Some message \<Rightarrow> (Inl message, False, [CreateConnection connectionConfig])
      | None \<Rightarrow>
          (case execute drv sqlStatement of
             Inl message \<Rightarrow> (Inl message, True, [CreateConnection connectionConfig, Execute sqlStatement])
           | Inr result \<Rightarrow>
               (Inr \<lparr>content_text = success_message operation result, isError = False\<rparr>, True,
                [CreateConnection connectionConfig, Execute sqlStatement, EndConnection])))"

definition executeWrite :: "connectionConfig \<Rightarrow> driver \<Rightarrow> string \<Rightarrow> string \<Rightarrow> outcome \<times> db_event list" where
  "executeWrite connectionConfig drv sqlStatement operation =
     (case try_executeWrite connectionConfig drv sqlStatement operation of
        (Inr returned, connection, calls) \<Rightarrow> (returned, calls)
      | (Inl message, connection, calls) \<Rightarrow>
          (\<lparr>content_text = ''MySQL '' @ toUpperCase operation @ '' Error: '' @ message, isError = True\<rparr>,
           calls @ (if connection then [EndConnection] else [])))"

section \<open>The handler of tool calls\<close>

definition expected_shape :: string where
  \<comment> \<open>the text \<open>Expected { "sql": "..." }\<close>\<close>
  "expected_shape = ''Expected { '' @ quoted ''sql'' @ '': '' @ quoted ''...'' @ '' }''"

definition CallTool_handler ::
  "bool \<Rightarrow> connectionConfig \<Rightarrow> driver \<Rightarrow> string \<Rightarrow> jsval option \<Rightarrow> response \<times> db_event list" where
  \<comment> \<open>The handler \<open>setupToolHandlers\<close> registers for \<open>CallToolRequestSchema\<close>, with the
      module constants \<open>MYSQL_ALLOW_WRITE_OPS\<close> and \<open>connectionConfig\<close> as its first two
      arguments; \<open>toolName\<close> is \<open>request.params.name\<close> and \<open>args\<close> is
      \<open>request.params.arguments\<close>. The result is the response and the driver calls made.\<close>
  "CallTool_handler allowWriteOps connectionConfig drv toolName args =
     (if toolName = ''query'' then
        (case isValidQueryArgs args of
           None \<Rightarrow>
             (Throw InvalidParams (''Invalid arguments for query tool. '' @ expected_shape), [])
         | Some sqlQuery \<Rightarrow>
             (let lowerCaseQuery = trim (toLowerCase sqlQuery)
              in if \<not> startsWith lowerCaseQuery ''select'' \<and> \<not> startsWith lowerCaseQuery ''show''
                    \<and> \<not> startsWith lowerCaseQuery ''describe''
                 then (Return \<lparr>content_text =
                                 ''Error: Only SELECT, SHOW, or DESCRIBE queries are allowed for the ''
                                 @ quoted ''query'' @ '' tool.'',
                               isError = True\<rparr>, [])
                 else (Return (fst (executeQuery connectionConfig drv sqlQuery)),
                       snd (executeQuery connectionConfig drv sqlQuery))))
      else if toolName \<in> set [''insert'', ''update'', ''delete''] then
        (if \<not> allowWriteOps
         then (Return \<lparr>content_text =
                         ''Error: Write operations are disabled. Set MYSQL_ALLOW_WRITE_OPS=true in MCP settings to enable ''
                         @ toolName @ ''.'',
                       isError = True\<rparr>, [])
         else (case isValidWriteArgs args of
                 None \<Rightarrow>
                   (Throw InvalidParams (''Invalid arguments for '' @ toolName @ '' tool. '' @ expected_shape), [])
               | Some sqlStatement \<Rightarrow>
                   (let lowerCaseStatement = trim (toLowerCase sqlStatement)
                    in if \<not> startsWith lowerCaseStatement toolName
                       then (Return \<lparr>content_text =
                                       ''Error: SQL statement does not appear to be a valid ''
                                       @ toUpperCase toolName @ '' statement.'',
                                     isError = True\<rparr>, [])
                       else (Return (fst (executeWrite connectionConfig drv sqlStatement toolName)),
                             snd (executeWrite connectionConfig drv sqlStatement toolName)))))
      else (Throw MethodNotFound (''Unknown tool: '' @ toolName), []))"

definition serve :: "env \<Rightarrow> driver \<Rightarrow> string \<Rightarrow> jsval option \<Rightarrow> nat + response \<times> db_event list" where
  \<comment> \<open>One tool call to a process started in the environment \<open>e\<close>: the exit code when
      the process exits at startup, else the handler's response and driver calls.\<close>
  "serve e drv toolName args =
     (case startup e of
        Inl code \<Rightarrow> Inl code
      | Inr st \<Rightarrow>
          Inr (CallTool_handler (allow_write_ops st) (connection_config st) drv toolName args))"

section \<open>Notions of the specification\<close>

definition normalized :: "string \<Rightarrow> string" where
  \<comment> \<open>the statement "after trimming whitespace and lower-casing"\<close>
  "normalized s = toLowerCase (trim s)"

definition isWordUnit :: "char \<Rightarrow> bool" where
  \<comment> \<open>a letter, a digit, an underscore or a dollar sign: the characters of an SQL keyword
      or unquoted identifier\<close>
  "isWordUnit c =
     (let n = (of_char c :: nat)
      in (48 \<le> n \<and> n \<le> 57) \<or> (65 \<le> n \<and> n \<le> 90) \<or> (97 \<le> n \<and> n \<le> 122) \<or> n = 95 \<or> n = 36)"

definition leading_token :: "string \<Rightarrow> string" where
  \<comment> \<open>the first token of a statement: its longest prefix of word characters\<close>
  "leading_token s = takeWhile isWordUnit s"

definition leading_word :: "string \<Rightarrow> string" where
  \<comment> \<open>the first token when tokens are separated by white space only\<close>
  "leading_word s = takeWhile (\<lambda>c. \<not> isWhiteSpace c) s"

definition is_object_with_sql_string :: "jsval option \<Rightarrow> bool" where
  \<comment> \<open>"an object containing a string field sql"\<close>
  "is_object_with_sql_string args =
     (case args of
        Some (JObj kvs) \<Rightarrow> (case map_of kvs ''sql'' of Some (JStr s) \<Rightarrow> True | _ \<Rightarrow> False)
      | _ \<Rightarrow> False)"

definition is_numeric :: "string \<Rightarrow> bool" where
  \<comment> \<open>a numeric text: decimal digits, at least one, after an optional sign, with white
      space allowed around\<close>
  "is_numeric s =
     (let t = trim s;
          d = (case t of c # r \<Rightarrow> if c = CHR ''+'' \<or> c = CHR ''-'' then r else t | [] \<Rightarrow> t)
      in d \<noteq> [] \<and> list_all isDigit d)"

fun contains_bigint :: "int \<Rightarrow> jsval \<Rightarrow> bool" where
  \<comment> \<open>the bigint \<open>n\<close> is a value somewhere in the result\<close>
  "contains_bigint n (JBigInt m) = (m = n)"
| "contains_bigint n (JArr xs) = list_ex (contains_bigint n) xs"
| "contains_bigint n (JObj kvs) = list_ex (\<lambda>kv. contains_bigint n (snd kv)) kvs"
| "contains_bigint n _ = False"

definition safe_counts :: "execute_result \<Rightarrow> bool" where
  \<comment> \<open>the affected-row count and the insert id, where the result has them, are safe
      integers\<close>
  "safe_counts result =
     ((case affectedRows result of None \<Rightarrow> True | Some n \<Rightarrow> isSafeInteger n)
      \<and> (case insertId result of None \<Rightarrow> True | Some i \<Rightarrow> isSafeInteger i))"

definition opens_connection :: "db_event list \<Rightarrow> bool" where
  \<comment> \<open>some call to \<open>mysql.createConnection\<close> was made\<close>
  "opens_connection tr = list_ex (\<lambda>ev. case ev of CreateConnection _ \<Rightarrow> True | _ \<Rightarrow> False) tr"

definition executed :: "db_event list \<Rightarrow> string list" where
  \<comment> \<open>the statements passed to \<open>connection.execute\<close>, in order\<close>
  "executed tr = concat (map (\<lambda>ev. case ev of Execute s \<Rightarrow> [s] | _ \<Rightarrow> []) tr)"

definition permitted :: "bool \<Rightarrow> string \<Rightarrow> string \<Rightarrow> bool" where
  \<comment> \<open>The classification of a statement for a tool, by prefix: the statement is accepted
      and goes to the execution gateway.\<close>
  "permitted allowWriteOps toolName sql =
     (if toolName = ''query''
      then startsWith (normalized sql) ''select'' \<or> startsWith (normalized sql) ''show''
           \<or> startsWith (normalized sql) ''describe''
      else toolName \<in> set [''insert'', ''update'', ''delete''] \<and> allowWriteOps
           \<and> startsWith (normalized sql) toolName)"

definition db_failure :: "driver \<Rightarrow> connectionConfig \<Rightarrow> string \<Rightarrow> string option" where
  \<comment> \<open>the message of the error with which the database operation fails, if it fails: at
      the connection, or at the statement\<close>
  "db_failure drv connectionConfig sql =
     (case createConnection drv connectionConfig of
        Some message \<Rightarrow> Some message
      | None \<Rightarrow> (case execute drv sql of Inl message \<Rightarrow> Some message | Inr _ \<Rightarrow> None))"

definition releases :: "db_event list \<Rightarrow> nat" where
  \<comment> \<open>how many times \<open>connection.end()\<close> was called\<close>
  "releases tr = length (filter (\<lambda>ev. ev = EndConnection) tr)"

definition integer_start :: "string \<Rightarrow> bool" where
  \<comment> \<open>the text begins, after leading white space and an optional sign, with a decimal digit\<close>
  "integer_start s =
     (let t = trimStart s;
          d = (case t of c # r \<Rightarrow> if c = CHR ''+'' \<or> c = CHR ''-'' then r else t | [] \<Rightarrow> t)
      in case d of c # _ \<Rightarrow> isDigit c | [] \<Rightarrow> False)"

section \<open>Sample inputs\<close>

definition sample_config :: connectionConfig where
  "sample_config = \<lparr>host = ''localhost'', user = ''app'', password = ''secret'', database = ''shop'', port = Some 3306\<rparr>"

definition sample_result :: execute_result where
  \<comment> \<open>one row whose \<open>id\<close> is the bigint \<open>2^53 + 1\<close>; three affected rows, no generated id\<close>
  "sample_result =
     \<lparr>json_view = JArr [JObj [(''id'', JBigInt 9007199254740993), (''name'', JStr ''a'')]],
      affectedRows = Some 3, insertId = Some 0\<rparr>"

definition driver_ok :: driver where
  "driver_ok = \<lparr>createConnection = (\<lambda>_. None), execute = (\<lambda>_. Inr sample_result)\<rparr>"

definition driver_syntax_error :: driver where
  \<comment> \<open>the connection is made and the statement is refused\<close>
  "driver_syntax_error =
     \<lparr>createConnection = (\<lambda>_. None), execute = (\<lambda>_. Inl ''You have an error in your SQL syntax'')\<rparr>"

definition driver_unreachable :: driver where
  "driver_unreachable =
     \<lparr>createConnection = (\<lambda>_. Some ''connect ECONNREFUSED''), execute = (\<lambda>_. Inr sample_result)\<rparr>"

definition sql_args :: "string \<Rightarrow> jsval option" where
  \<comment> \<open>the arguments \<open>{ sql: s }\<close>\<close>
  "sql_args s = Some (JObj [(''sql'', JStr s)])"

definition sample_env :: "string \<Rightarrow> env" where
  \<comment> \<open>the four required variables, and \<open>MYSQL_PORT\<close> set to the given text\<close>
  "sample_env p =
     [''MYSQL_HOST'' \<mapsto> ''localhost'', ''MYSQL_USER'' \<mapsto> ''app'', ''MYSQL_PASSWORD'' \<mapsto> ''secret'',
      ''MYSQL_DATABASE'' \<mapsto> ''shop'', ''MYSQL_PORT'' \<mapsto> p]"

section \<open>Facts about the guards and the normalisation\<close>

lemma isValidQueryArgs_Some_iff:
  "isValidQueryArgs args = Some s \<longleftrightarrow> (\<exists>kvs. args = Some (JObj kvs) \<and> map_of kvs ''sql'' = Some (JStr s))"
proof (cases args)
  case None
  then show ?thesis by (simp add: isValidQueryArgs_def)
next
  case (Some a)
  then show ?thesis
    by (cases a) (auto simp: isValidQueryArgs_def split: option.splits jsval.splits)
qed

lemma isValidWriteArgs_eq: "isValidWriteArgs args = isValidQueryArgs args"
  by (simp add: isValidWriteArgs_def isValidQueryArgs_def)

lemma isValidQueryArgs_None_iff:
  "isValidQueryArgs args = None \<longleftrightarrow> \<not> is_object_with_sql_string args"
proof (cases args)
  case None
  then show ?thesis by (simp add: isValidQueryArgs_def is_object_with_sql_string_def)
next
  case (Some a)
  then show ?thesis
    by (cases a) (auto simp: isValidQueryArgs_def is_object_with_sql_string_def split: option.splits jsval.splits)
qed

text \<open>
  The source lower-cases and then trims; the specification trims and then lower-cases.
  Lower-casing neither makes nor removes white space, so the two agree.
\<close>

lemma isWhiteSpace_toLowerCase_unit: "isWhiteSpace (toLowerCase_unit c) = isWhiteSpace c"
proof -
  have "of_char c < (256 :: nat)" by simp
  then show ?thesis
    by (auto simp: isWhiteSpace_def toLowerCase_unit_def Let_def)
qed

lemma dropWhile_toLowerCase:
  "dropWhile isWhiteSpace (map toLowerCase_unit s) = map toLowerCase_unit (dropWhile isWhiteSpace s)"
  by (induction s) (simp_all add: isWhiteSpace_toLowerCase_unit)

lemma trim_toLowerCase: "trim (toLowerCase s) = normalized s"
  by (simp add: trim_def toLowerCase_def normalized_def dropWhile_toLowerCase rev_map)

lemma tool_names_not_query:
  "toolName \<in> set [''insert'', ''update'', ''delete''] \<Longrightarrow> toolName \<noteq> ''query''"
  by auto

section \<open>The write gate\<close>

text \<open>
  C1. When the write-enable flag is false, every call of \<open>insert\<close>, \<open>update\<close> or
  \<open>delete\<close> returns an outcome flagged as an error whose text names
  \<open>MYSQL_ALLOW_WRITE_OPS\<close> and the tool that was called, and no call is made on the
  driver, whatever the arguments are.
\<close>

theorem write_tools_disabled:
  assumes "toolName \<in> set [''insert'', ''update'', ''delete'']"
  shows "\<exists>t. CallTool_handler False cfg drv toolName args = (Return \<lparr>content_text = t, isError = True\<rparr>, [])
             \<and> t = ''Error: Write operations are disabled. Set MYSQL_ALLOW_WRITE_OPS=true in MCP settings to enable '' @ toolName @ ''.''
             \<and> sublist ''MYSQL_ALLOW_WRITE_OPS'' t \<and> sublist toolName t
             \<and> \<not> opens_connection (snd (CallTool_handler False cfg drv toolName args))"
proof -
  let ?t = "''Error: Write operations are disabled. Set MYSQL_ALLOW_WRITE_OPS=true in MCP settings to enable '' @ toolName @ ''.''"
  have nq: "toolName \<noteq> ''query''" using assms by (rule tool_names_not_query)
  have h: "CallTool_handler False cfg drv toolName args = (Return \<lparr>content_text = ?t, isError = True\<rparr>, [])"
    using assms nq by (simp add: CallTool_handler_def)
  have "?t = ''Error: Write operations are disabled. Set '' @ ''MYSQL_ALLOW_WRITE_OPS'' @ (''=true in MCP settings to enable '' @ toolName @ ''.'')"
    by simp
  then have s1: "sublist ''MYSQL_ALLOW_WRITE_OPS'' ?t"
    unfolding sublist_def by blast
  have "?t = ''Error: Write operations are disabled. Set MYSQL_ALLOW_WRITE_OPS=true in MCP settings to enable '' @ toolName @ ''.''"
    by simp
  then have s2: "sublist toolName ?t"
    unfolding sublist_def by blast
  show ?thesis using h s1 s2 by (simp add: opens_connection_def)
qed

theorem write_tools_disabled_witness:
  "\<exists>t. CallTool_handler False sample_config driver_ok ''insert'' (sql_args ''INSERT INTO t VALUES (1)'')
         = (Return \<lparr>content_text = t, isError = True\<rparr>, [])
       \<and> sublist ''MYSQL_ALLOW_WRITE_OPS'' t \<and> sublist ''insert'' t"
  using write_tools_disabled [of "''insert''" sample_config driver_ok "sql_args ''INSERT INTO t VALUES (1)''"]
  by simp

section \<open>Evaluation of the string functions on literals\<close>

lemmas string_eval =
  normalized_def trim_def trimStart_def toLowerCase_def toLowerCase_unit_def toUpperCase_def
  toUpperCase_unit_def isWhiteSpace_def isDigit_def isWordUnit_def startsWith_def quoted_def
  char_of_def bit_0

section \<open>What the gateway leaves in the trace\<close>

lemma opens_connection_executeQuery: "opens_connection (snd (executeQuery cfg drv sql))"
  by (simp add: executeQuery_def try_executeQuery_def opens_connection_def split: option.splits sum.splits)

lemma opens_connection_executeWrite: "opens_connection (snd (executeWrite cfg drv sql operation))"
  by (simp add: executeWrite_def try_executeWrite_def opens_connection_def split: option.splits sum.splits)

lemma executed_executeQuery:
  "executed (snd (executeQuery cfg drv sql)) = (if createConnection drv cfg = None then [sql] else [])"
  by (simp add: executeQuery_def try_executeQuery_def executed_def split: option.splits sum.splits)

lemma executed_executeWrite:
  "executed (snd (executeWrite cfg drv sql operation)) = (if createConnection drv cfg = None then [sql] else [])"
  by (simp add: executeWrite_def try_executeWrite_def executed_def split: option.splits sum.splits)

section \<open>The handler on well-formed arguments\<close>

lemma handler_query:
  assumes "map_of kvs ''sql'' = Some (JStr sql)"
  shows "CallTool_handler allowWriteOps cfg drv ''query'' (Some (JObj kvs))
         = (if startsWith (normalized sql) ''select'' \<or> startsWith (normalized sql) ''show''
               \<or> startsWith (normalized sql) ''describe''
            then (Return (fst (executeQuery cfg drv sql)), snd (executeQuery cfg drv sql))
            else (Return \<lparr>content_text = ''Error: Only SELECT, SHOW, or DESCRIBE queries are allowed for the ''
                                          @ quoted ''query'' @ '' tool.'',
                          isError = True\<rparr>, []))"
proof -
  have "isValidQueryArgs (Some (JObj kvs)) = Some sql"
    using assms by (simp add: isValidQueryArgs_Some_iff)
  then show ?thesis
    by (simp add: CallTool_handler_def trim_toLowerCase Let_def)
qed

lemma handler_write:
  assumes "toolName \<in> set [''insert'', ''update'', ''delete'']"
    and "map_of kvs ''sql'' = Some (JStr sql)"
  shows "CallTool_handler True cfg drv toolName (Some (JObj kvs))
         = (if startsWith (normalized sql) toolName
            then (Return (fst (executeWrite cfg drv sql toolName)), snd (executeWrite cfg drv sql toolName))
            else (Return \<lparr>content_text = ''Error: SQL statement does not appear to be a valid ''
                                          @ toUpperCase toolName @ '' statement.'',
                          isError = True\<rparr>, []))"
proof -
  have "isValidWriteArgs (Some (JObj kvs)) = Some sql"
    using assms(2) by (simp add: isValidWriteArgs_eq isValidQueryArgs_Some_iff)
  moreover have "toolName \<noteq> ''query''" using assms(1) by (rule tool_names_not_query)
  ultimately show ?thesis
    using assms(1) by (simp add: CallTool_handler_def trim_toLowerCase Let_def)
qed

lemma normalized_selectx: "normalized ''selectx'' = ''selectx''"
  by (simp add: string_eval)

lemma normalized_insertx: "normalized ''insertx'' = ''insertx''"
  by (simp add: string_eval)

section \<open>Validation of the arguments\<close>

text \<open>
  The claim C2 as stated asks for the invalid-params error for every tool and every value
  of the flag. With the flag false, \<open>insert\<close> called without arguments gets the
  write-disabled outcome, not a protocol error: the flag is tested before the arguments.
\<close>

theorem invalid_arguments_counterexample:
  "\<not> is_object_with_sql_string None
   \<and> CallTool_handler False sample_config driver_ok ''insert'' None
       = (Return \<lparr>content_text = ''Error: Write operations are disabled. Set MYSQL_ALLOW_WRITE_OPS=true in MCP settings to enable insert.'',
                  isError = True\<rparr>, [])
   \<and> fst (CallTool_handler False sample_config driver_ok ''insert'' None)
       \<noteq> Throw InvalidParams (''Invalid arguments for insert tool. '' @ expected_shape)"
  by (simp add: is_object_with_sql_string_def CallTool_handler_def)

text \<open>
  C2 (amended). When the arguments are not an object with a string field \<open>sql\<close>,
  \<open>query\<close> (for either value of the flag) and \<open>insert\<close>, \<open>update\<close>,
  \<open>delete\<close> with the flag true throw the protocol error \<open>InvalidParams\<close>;
  the write tools with the flag false return the write-disabled outcome instead. In
  every case no call is made on the driver.
\<close>

theorem invalid_arguments:
  assumes "\<not> is_object_with_sql_string args"
  shows "(toolName = ''query'' \<or> (toolName \<in> set [''insert'', ''update'', ''delete''] \<and> allowWriteOps)
          \<longrightarrow> CallTool_handler allowWriteOps cfg drv toolName args
               = (Throw InvalidParams (''Invalid arguments for '' @ toolName @ '' tool. '' @ expected_shape), []))
       \<and> (toolName \<in> set [''insert'', ''update'', ''delete''] \<and> \<not> allowWriteOps
          \<longrightarrow> CallTool_handler allowWriteOps cfg drv toolName args
               = (Return \<lparr>content_text = ''Error: Write operations are disabled. Set MYSQL_ALLOW_WRITE_OPS=true in MCP settings to enable '' @ toolName @ ''.'',
                          isError = True\<rparr>, []))
       \<and> (toolName \<in> set [''query'', ''insert'', ''update'', ''delete'']
          \<longrightarrow> \<not> opens_connection (snd (CallTool_handler allowWriteOps cfg drv toolName args)))"
proof -
  have q: "isValidQueryArgs args = None" using assms by (simp add: isValidQueryArgs_None_iff)
  have w: "isValidWriteArgs args = None" using q by (simp add: isValidWriteArgs_eq)
  show ?thesis
    using q w by (auto simp: CallTool_handler_def opens_connection_def)
qed

theorem invalid_arguments_witness:
  "CallTool_handler False sample_config driver_ok ''query'' (Some (JObj [(''sql'', JNum 5)]))
     = (Throw InvalidParams (''Invalid arguments for query tool. '' @ expected_shape), [])
   \<and> CallTool_handler True sample_config driver_ok ''update'' (Some (JObj [(''sql'', JNum 5)]))
     = (Throw InvalidParams (''Invalid arguments for update tool. '' @ expected_shape), [])
   \<and> CallTool_handler False sample_config driver_ok ''update'' (Some (JObj [(''sql'', JNum 5)]))
     = (Return \<lparr>content_text = ''Error: Write operations are disabled. Set MYSQL_ALLOW_WRITE_OPS=true in MCP settings to enable update.'',
                isError = True\<rparr>, [])"
proof -
  have h: "\<not> is_object_with_sql_string (Some (JObj [(''sql'', JNum 5)]))"
    by (simp add: is_object_with_sql_string_def)
  show ?thesis
    using invalid_arguments [OF h, of "''query''" False sample_config driver_ok]
      invalid_arguments [OF h, of "''update''" True sample_config driver_ok]
      invalid_arguments [OF h, of "''update''" False sample_config driver_ok]
    by simp
qed

section \<open>The read-only gate of the query tool\<close>

text \<open>
  The claim C3 as stated speaks of the leading token. The statement \<open>selectx\<close> has
  the leading token \<open>selectx\<close>, which is none of \<open>select\<close>, \<open>show\<close>,
  \<open>describe\<close>; the handler accepts it, opens a connection and sends it to the
  database. The test of the source is a prefix test.
\<close>

theorem query_leading_token_counterexample:
  "leading_token (normalized ''selectx'') = ''selectx''
   \<and> leading_word (normalized ''selectx'') = ''selectx''
   \<and> ''selectx'' \<notin> set [''select'', ''show'', ''describe'']
   \<and> CallTool_handler False sample_config driver_syntax_error ''query'' (sql_args ''selectx'')
      = (Return \<lparr>content_text = ''MySQL Query Error: You have an error in your SQL syntax'', isError = True\<rparr>,
         [CreateConnection sample_config, Execute ''selectx'', EndConnection])
   \<and> opens_connection (snd (CallTool_handler False sample_config driver_syntax_error ''query'' (sql_args ''selectx'')))"
  by (simp add: normalized_selectx leading_token_def leading_word_def isWordUnit_def isWhiteSpace_def
      CallTool_handler_def sql_args_def isValidQueryArgs_def trim_toLowerCase startsWith_def
      executeQuery_def try_executeQuery_def driver_syntax_error_def opens_connection_def)

text \<open>
  C3 (amended). A \<open>query\<close> call whose statement, trimmed and lower-cased, does not
  start with the characters \<open>select\<close>, \<open>show\<close> or \<open>describe\<close> returns the
  outcome flagged as an error that says only SELECT, SHOW or DESCRIBE are allowed, and
  no connection is opened. A statement that starts with one of the three goes to
  \<open>executeQuery\<close>, also when the prefix is the start of a longer word.
\<close>

theorem query_prefix_gate:
  assumes "map_of kvs ''sql'' = Some (JStr sql)"
  shows "(\<not> startsWith (normalized sql) ''select'' \<and> \<not> startsWith (normalized sql) ''show''
          \<and> \<not> startsWith (normalized sql) ''describe''
          \<longrightarrow> CallTool_handler allowWriteOps cfg drv ''query'' (Some (JObj kvs))
               = (Return \<lparr>content_text = ''Error: Only SELECT, SHOW, or DESCRIBE queries are allowed for the ''
                                            @ quoted ''query'' @ '' tool.'',
                          isError = True\<rparr>, [])
              \<and> \<not> opens_connection (snd (CallTool_handler allowWriteOps cfg drv ''query'' (Some (JObj kvs)))))
       \<and> (startsWith (normalized sql) ''select'' \<or> startsWith (normalized sql) ''show''
          \<or> startsWith (normalized sql) ''describe''
          \<longrightarrow> CallTool_handler allowWriteOps cfg drv ''query'' (Some (JObj kvs))
               = (Return (fst (executeQuery cfg drv sql)), snd (executeQuery cfg drv sql))
              \<and> opens_connection (snd (CallTool_handler allowWriteOps cfg drv ''query'' (Some (JObj kvs)))))"
  using handler_query [OF assms, of allowWriteOps cfg drv]
  by (auto simp: opens_connection_executeQuery) (simp add: opens_connection_def)

theorem query_prefix_gate_witness:
  "CallTool_handler False sample_config driver_ok ''query'' (Some (JObj [(''sql'', JStr ''  Drop TABLE t'')]))
     = (Return \<lparr>content_text = ''Error: Only SELECT, SHOW, or DESCRIBE queries are allowed for the ''
                                  @ quoted ''query'' @ '' tool.'',
                isError = True\<rparr>, [])
   \<and> opens_connection (snd (CallTool_handler False sample_config driver_ok ''query''
                               (Some (JObj [(''sql'', JStr ''Show tables'')]))))"
proof -
  have a: "map_of [(''sql'', JStr ''  Drop TABLE t'')] ''sql'' = Some (JStr ''  Drop TABLE t'')" by simp
  have b: "map_of [(''sql'', JStr ''Show tables'')] ''sql'' = Some (JStr ''Show tables'')" by simp
  have n1: "normalized ''  Drop TABLE t'' = ''drop table t''"
    by (simp add: string_eval)
  have n2: "normalized ''Show tables'' = ''show tables''"
    by (simp add: string_eval)
  show ?thesis
    using query_prefix_gate [OF a, of False sample_config driver_ok]
      query_prefix_gate [OF b, of False sample_config driver_ok]
    by (simp add: n1 n2 startsWith_def opens_connection_executeQuery)
qed

section \<open>The statement check of the write tools\<close>

text \<open>
  The claim C4 as stated asks that a statement is accepted only if its first token is
  the tool name. With the flag true, \<open>insert\<close> called with the statement
  \<open>insertx\<close>, whose first token is \<open>insertx\<close>, is accepted and executed.
\<close>

theorem write_first_token_counterexample:
  "leading_token (normalized ''insertx'') = ''insertx''
   \<and> leading_word (normalized ''insertx'') = ''insertx''
   \<and> ''insertx'' \<noteq> ''insert''
   \<and> CallTool_handler True sample_config driver_syntax_error ''insert'' (sql_args ''insertx'')
      = (Return \<lparr>content_text = ''MySQL INSERT Error: You have an error in your SQL syntax'', isError = True\<rparr>,
         [CreateConnection sample_config, Execute ''insertx'', EndConnection])
   \<and> executed (snd (CallTool_handler True sample_config driver_syntax_error ''insert'' (sql_args ''insertx'')))
      = [''insertx'']"
  by (simp add: normalized_insertx leading_token_def leading_word_def isWordUnit_def isWhiteSpace_def
      CallTool_handler_def sql_args_def isValidWriteArgs_def trim_toLowerCase startsWith_def
      executeWrite_def try_executeWrite_def driver_syntax_error_def executed_def toUpperCase_def toUpperCase_unit_def
      char_of_def bit_0)

text \<open>
  C4 (amended). With the flag true, a call of \<open>insert\<close>, \<open>update\<close> or
  \<open>delete\<close> goes to \<open>executeWrite\<close> if and only if the statement, trimmed and
  lower-cased, starts with the characters of the tool name; otherwise an outcome flagged
  as an error is returned, nothing is executed and no connection is opened.
\<close>

theorem write_prefix_gate:
  assumes "toolName \<in> set [''insert'', ''update'', ''delete'']"
    and "map_of kvs ''sql'' = Some (JStr sql)"
  shows "(startsWith (normalized sql) toolName
          \<longrightarrow> CallTool_handler True cfg drv toolName (Some (JObj kvs))
               = (Return (fst (executeWrite cfg drv sql toolName)), snd (executeWrite cfg drv sql toolName)))
       \<and> (\<not> startsWith (normalized sql) toolName
          \<longrightarrow> CallTool_handler True cfg drv toolName (Some (JObj kvs))
               = (Return \<lparr>content_text = ''Error: SQL statement does not appear to be a valid ''
                                            @ toUpperCase toolName @ '' statement.'',
                          isError = True\<rparr>, [])
              \<and> executed (snd (CallTool_handler True cfg drv toolName (Some (JObj kvs)))) = []
              \<and> \<not> opens_connection (snd (CallTool_handler True cfg drv toolName (Some (JObj kvs)))))"
  using handler_write [OF assms, of cfg drv]
  by (simp add: executed_def opens_connection_def)

theorem write_prefix_gate_witness:
  "CallTool_handler True sample_config driver_ok ''update'' (Some (JObj [(''sql'', JStr ''DELETE FROM t'')]))
     = (Return \<lparr>content_text = ''Error: SQL statement does not appear to be a valid UPDATE statement.'',
                isError = True\<rparr>, [])
   \<and> CallTool_handler True sample_config driver_ok ''delete'' (Some (JObj [(''sql'', JStr ''DELETE FROM t'')]))
     = (Return (fst (executeWrite sample_config driver_ok ''DELETE FROM t'' ''delete'')),
        snd (executeWrite sample_config driver_ok ''DELETE FROM t'' ''delete''))"
proof -
  have m: "map_of [(''sql'', JStr ''DELETE FROM t'')] ''sql'' = Some (JStr ''DELETE FROM t'')" by simp
  have n: "normalized ''DELETE FROM t'' = ''delete from t''"
    by (simp add: string_eval)
  have u: "''update'' \<in> set [''insert'', ''update'', ''delete'']" by simp
  have d: "''delete'' \<in> set [''insert'', ''update'', ''delete'']" by simp
  show ?thesis
    using write_prefix_gate [OF u m, of sample_config driver_ok]
      write_prefix_gate [OF d m, of sample_config driver_ok]
    by (simp add: n startsWith_def toUpperCase_def toUpperCase_unit_def char_of_def bit_0)
qed

section \<open>Failures of the database\<close>

lemma releases_simps:
  "releases [] = 0"
  "releases (EndConnection # tr) = Suc (releases tr)"
  "releases (CreateConnection c # tr) = releases tr"
  "releases (Execute s # tr) = releases tr"
  by (simp_all add: releases_def)

lemma toUpperCase_tool_names:
  "toUpperCase ''insert'' = ''INSERT''" "toUpperCase ''update'' = ''UPDATE''"
  "toUpperCase ''delete'' = ''DELETE''"
  by (simp_all add: string_eval)

text \<open>
  C5. When the database operation fails, at the connection or at the statement, with
  an error of message \<open>message\<close>, both gateway functions return an outcome flagged
  as an error whose text is the marker (\<open>MySQL Query Error: \<close> for a read,
  \<open>MySQL OPERATION Error: \<close> for a write, the operation in upper case) followed by
  the message unchanged. The connection is ended once when it was acquired and never
  when it was not. The result is an outcome in every case: no exception leaves the
  gateway.
\<close>

theorem database_failure_normalised:
  assumes "db_failure drv cfg sql = Some message"
  shows "executeQuery cfg drv sql
           = (\<lparr>content_text = ''MySQL Query Error: '' @ message, isError = True\<rparr>,
              if createConnection drv cfg = None
              then [CreateConnection cfg, Execute sql, EndConnection] else [CreateConnection cfg])
       \<and> executeWrite cfg drv sql operation
           = (\<lparr>content_text = ''MySQL '' @ toUpperCase operation @ '' Error: '' @ message, isError = True\<rparr>,
              if createConnection drv cfg = None
              then [CreateConnection cfg, Execute sql, EndConnection] else [CreateConnection cfg])
       \<and> releases (snd (executeQuery cfg drv sql)) = (if createConnection drv cfg = None then 1 else 0)
       \<and> releases (snd (executeWrite cfg drv sql operation)) = (if createConnection drv cfg = None then 1 else 0)"
  using assms
  by (auto simp: db_failure_def executeQuery_def try_executeQuery_def executeWrite_def try_executeWrite_def releases_simps
      split: option.splits sum.splits)

theorem database_failure_normalised_witness:
  "executeQuery sample_config driver_unreachable ''SELECT 1''
     = (\<lparr>content_text = ''MySQL Query Error: connect ECONNREFUSED'', isError = True\<rparr>,
        [CreateConnection sample_config])
   \<and> executeWrite sample_config driver_syntax_error ''DELETE FROM'' ''delete''
     = (\<lparr>content_text = ''MySQL DELETE Error: You have an error in your SQL syntax'', isError = True\<rparr>,
        [CreateConnection sample_config, Execute ''DELETE FROM'', EndConnection])"
proof -
  have a: "db_failure driver_unreachable sample_config ''SELECT 1'' = Some ''connect ECONNREFUSED''"
    by (simp add: db_failure_def driver_unreachable_def)
  have b: "db_failure driver_syntax_error sample_config ''DELETE FROM'' = Some ''You have an error in your SQL syntax''"
    by (simp add: db_failure_def driver_syntax_error_def)
  show ?thesis
    using database_failure_normalised [OF a, of "''delete''"] database_failure_normalised [OF b, of "''delete''"]
    by (simp add: driver_unreachable_def driver_syntax_error_def toUpperCase_tool_names)
qed

section \<open>The confirmation message of a write\<close>

lemma integer_toString_42: "integer_toString 42 = ''42''"
  by (simp add: integer_toString_def decimal.simps char_of_def bit_0)

lemma integer_toString_3: "integer_toString 3 = ''3''"
  by (simp add: integer_toString_def decimal.simps char_of_def bit_0)

text \<open>
  C7. After a successful write whose affected-row count and insert id are safe
  integers (at most \<open>2^53 - 1\<close> in magnitude, where a Number prints its exact digits),
  the text is \<open>OPERATION successful.\<close>, followed by \<open> Affected rows: n.\<close> exactly
  when the result has an affected-row count, followed by \<open> Insert ID: id.\<close> exactly
  when the result has an insert id other than zero. With an insert id of 0 there is no
  Insert ID clause; with 42 the clause is \<open> Insert ID: 42.\<close>. The witness is the
  delete with three affected rows, from the tool call to the text
  \<open>DELETE successful. Affected rows: 3.\<close>.
\<close>

theorem write_success_message:
  assumes "createConnection drv cfg = None" and "execute drv sql = Inr result"
    and "safe_counts result"
  shows "executeWrite cfg drv sql operation
           = (\<lparr>content_text =
                 toUpperCase operation @ '' successful.''
                 @ (case affectedRows result of
                      None \<Rightarrow> []
                    | Some n \<Rightarrow> '' Affected rows: '' @ integer_toString n @ ''.'')
                 @ (case insertId result of
                      None \<Rightarrow> []
                    | Some i \<Rightarrow> if i = 0 then [] else '' Insert ID: '' @ integer_toString i @ ''.''),
               isError = False\<rparr>,
              [CreateConnection cfg, Execute sql, EndConnection])
       \<and> (affectedRows result = Some n \<and> insertId result = Some 0
          \<longrightarrow> content_text (fst (executeWrite cfg drv sql operation))
               = toUpperCase operation @ '' successful. Affected rows: '' @ integer_toString n @ ''.'')
       \<and> (affectedRows result = Some n \<and> insertId result = Some 42
          \<longrightarrow> content_text (fst (executeWrite cfg drv sql operation))
               = toUpperCase operation @ '' successful. Affected rows: '' @ integer_toString n
                  @ ''. Insert ID: 42.'')"
  using assms(1,2)
  by (auto simp: executeWrite_def try_executeWrite_def success_message_def integer_toString_42 split: option.splits)

theorem write_success_message_witness:
  "CallTool_handler True sample_config driver_ok ''delete'' (sql_args ''DELETE FROM t WHERE id=1'')
     = (Return \<lparr>content_text = ''DELETE successful. Affected rows: 3.'', isError = False\<rparr>,
        [CreateConnection sample_config, Execute ''DELETE FROM t WHERE id=1'', EndConnection])"
proof -
  have c: "createConnection driver_ok sample_config = None" by (simp add: driver_ok_def)
  have e: "execute driver_ok ''DELETE FROM t WHERE id=1'' = Inr sample_result" by (simp add: driver_ok_def)
  have m: "map_of [(''sql'', JStr ''DELETE FROM t WHERE id=1'')] ''sql'' = Some (JStr ''DELETE FROM t WHERE id=1'')"
    by simp
  have d: "''delete'' \<in> set [''insert'', ''update'', ''delete'']" by simp
  have n: "normalized ''DELETE FROM t WHERE id=1'' = ''delete from t where id=1''"
    by (simp add: string_eval)
  have h: "CallTool_handler True sample_config driver_ok ''delete'' (sql_args ''DELETE FROM t WHERE id=1'')
           = (Return (fst (executeWrite sample_config driver_ok ''DELETE FROM t WHERE id=1'' ''delete'')),
              snd (executeWrite sample_config driver_ok ''DELETE FROM t WHERE id=1'' ''delete''))"
    using handler_write [OF d m, of sample_config driver_ok] by (simp add: n startsWith_def sql_args_def)
  have sc: "safe_counts sample_result"
    by (simp add: safe_counts_def sample_result_def isSafeInteger_def)
  show ?thesis
    using write_success_message [OF c e sc, of "''delete''" 3]
    by (simp add: h sample_result_def toUpperCase_tool_names integer_toString_3)
qed

section \<open>The statement that reaches the database\<close>

text \<open>
  C8. For arguments with the string \<open>sql\<close>, the statements executed by a tool call
  are exactly \<open>[sql]\<close>, the argument unchanged, when the statement is accepted and the
  connection is made, and none otherwise; an accepted statement is passed unchanged to
  \<open>executeQuery\<close> or \<open>executeWrite\<close>. Trimming and lower-casing only feed the
  prefix test.
\<close>

theorem original_statement_executed:
  assumes "map_of kvs ''sql'' = Some (JStr sql)"
  shows "executed (snd (CallTool_handler allowWriteOps cfg drv toolName (Some (JObj kvs))))
           = (if permitted allowWriteOps toolName sql \<and> createConnection drv cfg = None then [sql] else [])
       \<and> (permitted allowWriteOps toolName sql
          \<longrightarrow> CallTool_handler allowWriteOps cfg drv toolName (Some (JObj kvs))
               = (if toolName = ''query''
                  then (Return (fst (executeQuery cfg drv sql)), snd (executeQuery cfg drv sql))
                  else (Return (fst (executeWrite cfg drv sql toolName)),
                        snd (executeWrite cfg drv sql toolName))))"
proof (cases "toolName = ''query''")
  case True
  then show ?thesis
    using handler_query [OF assms, of allowWriteOps cfg drv]
    by (simp add: permitted_def executed_executeQuery) (simp add: executed_def)
next
  case nq: False
  show ?thesis
  proof (cases "toolName \<in> set [''insert'', ''update'', ''delete'']")
    case w: True
    show ?thesis
    proof (cases allowWriteOps)
      case True
      then show ?thesis
        using handler_write [OF w assms, of cfg drv] nq w
        by (simp add: permitted_def executed_executeWrite) (simp add: executed_def)
    next
      case False
      then show ?thesis
        using nq w by (simp add: permitted_def CallTool_handler_def executed_def)
    qed
  next
    case False
    then show ?thesis
      using nq by (simp add: permitted_def CallTool_handler_def executed_def)
  qed
qed

theorem original_statement_executed_witness:
  "executed (snd (CallTool_handler False sample_config driver_ok ''query'' (Some (JObj [(''sql'', JStr ''  Select 1 '')]))))
     = [''  Select 1 '']
   \<and> executed (snd (CallTool_handler True sample_config driver_ok ''update''
                      (Some (JObj [(''sql'', JStr '' UPDATE t SET a = 1'')]))))
     = ['' UPDATE t SET a = 1'']"
proof -
  have a: "map_of [(''sql'', JStr ''  Select 1 '')] ''sql'' = Some (JStr ''  Select 1 '')" by simp
  have b: "map_of [(''sql'', JStr '' UPDATE t SET a = 1'')] ''sql'' = Some (JStr '' UPDATE t SET a = 1'')" by simp
  have p1: "permitted False ''query'' ''  Select 1 ''"
    by (simp add: permitted_def string_eval)
  have p2: "permitted True ''update'' '' UPDATE t SET a = 1''"
    by (simp add: permitted_def string_eval)
  have c: "createConnection driver_ok sample_config = None" by (simp add: driver_ok_def)
  show ?thesis
    using original_statement_executed [OF a, of False sample_config driver_ok "''query''"]
      original_statement_executed [OF b, of True sample_config driver_ok "''update''"]
      p1 p2 c
    by (simp add: executed_executeQuery executed_executeWrite)
qed

section \<open>The write-enable flag\<close>

text \<open>
  C9. The flag is true if and only if \<open>MYSQL_ALLOW_WRITE_OPS\<close> is the exact string
  \<open>true\<close>. The values \<open>TRUE\<close>, \<open>True\<close>, \<open>1\<close>, \<open>yes\<close> and the unset variable
  give false, and whenever the variable is not \<open>true\<close> a started server answers
  \<open>insert\<close>, \<open>update\<close> and \<open>delete\<close> with the write-disabled outcome.
\<close>

theorem write_flag_exact:
  "(MYSQL_ALLOW_WRITE_OPS e \<longleftrightarrow> e ''MYSQL_ALLOW_WRITE_OPS'' = Some ''true'')
   \<and> (startup e = Inr st \<longrightarrow> (allow_write_ops st \<longleftrightarrow> e ''MYSQL_ALLOW_WRITE_OPS'' = Some ''true''))
   \<and> (v \<in> set [''TRUE'', ''True'', ''1'', ''yes''] \<longrightarrow> \<not> MYSQL_ALLOW_WRITE_OPS (e(''MYSQL_ALLOW_WRITE_OPS'' \<mapsto> v)))
   \<and> \<not> MYSQL_ALLOW_WRITE_OPS (e(''MYSQL_ALLOW_WRITE_OPS'' := None))
   \<and> (startup e = Inr st \<and> e ''MYSQL_ALLOW_WRITE_OPS'' \<noteq> Some ''true''
        \<and> toolName \<in> set [''insert'', ''update'', ''delete'']
      \<longrightarrow> serve e drv toolName args
           = Inr (Return \<lparr>content_text = ''Error: Write operations are disabled. Set MYSQL_ALLOW_WRITE_OPS=true in MCP settings to enable '' @ toolName @ ''.'',
                          isError = True\<rparr>, []))"
proof -
  have st: "startup e = Inr st \<Longrightarrow> allow_write_ops st = MYSQL_ALLOW_WRITE_OPS e"
    by (auto simp: startup_def split: if_splits option.splits)
  have "startup e = Inr st \<Longrightarrow> e ''MYSQL_ALLOW_WRITE_OPS'' \<noteq> Some ''true''
        \<Longrightarrow> toolName \<in> set [''insert'', ''update'', ''delete'']
        \<Longrightarrow> serve e drv toolName args
           = Inr (Return \<lparr>content_text = ''Error: Write operations are disabled. Set MYSQL_ALLOW_WRITE_OPS=true in MCP settings to enable '' @ toolName @ ''.'',
                          isError = True\<rparr>, [])"
  proof -
    assume a: "startup e = Inr st" "e ''MYSQL_ALLOW_WRITE_OPS'' \<noteq> Some ''true''"
      "toolName \<in> set [''insert'', ''update'', ''delete'']"
    have "\<not> allow_write_ops st" using st [OF a(1)] a(2) by (simp add: MYSQL_ALLOW_WRITE_OPS_def)
    moreover have "toolName \<noteq> ''query''" using a(3) by (rule tool_names_not_query)
    ultimately show ?thesis using a(1,3) by (simp add: serve_def CallTool_handler_def)
  qed
  then show ?thesis
    using st by (auto simp: MYSQL_ALLOW_WRITE_OPS_def)
qed

theorem write_flag_exact_witness:
  "serve ((sample_env ''3306'')(''MYSQL_ALLOW_WRITE_OPS'' \<mapsto> ''TRUE'')) driver_ok ''delete'' (sql_args ''DELETE FROM t'')
     = Inr (Return \<lparr>content_text = ''Error: Write operations are disabled. Set MYSQL_ALLOW_WRITE_OPS=true in MCP settings to enable delete.'',
                    isError = True\<rparr>, [])
   \<and> \<not> MYSQL_ALLOW_WRITE_OPS ((sample_env ''3306'')(''MYSQL_ALLOW_WRITE_OPS'' \<mapsto> ''yes''))"
proof -
  let ?e = "(sample_env ''3306'')(''MYSQL_ALLOW_WRITE_OPS'' \<mapsto> ''TRUE'')"
  have "\<exists>st. startup ?e = Inr st"
    by (simp add: startup_def sample_env_def falsy_def)
  then obtain st where s: "startup ?e = Inr st" by blast
  have v: "?e ''MYSQL_ALLOW_WRITE_OPS'' \<noteq> Some ''true''" by simp
  have y: "''yes'' \<in> set [''TRUE'', ''True'', ''1'', ''yes'']" by simp
  show ?thesis
    using write_flag_exact [of ?e st "''yes''" "''delete''" driver_ok "sql_args ''DELETE FROM t''"]
      write_flag_exact [of "sample_env ''3306''" st "''yes''" "''delete''" driver_ok "sql_args ''DELETE FROM t''"]
      s v y
    by simp
qed

section \<open>Startup and the port\<close>

lemma parseInt_None_iff: "parseInt p = None \<longleftrightarrow> \<not> integer_start p"
proof -
  have tw: "\<And>d. (takeWhile isDigit d = []) = (case d of c # _ \<Rightarrow> \<not> isDigit c | [] \<Rightarrow> True)"
    by (simp add: takeWhile_eq_Nil_iff split: list.splits)
  show ?thesis
    by (simp add: parseInt_def integer_start_def Let_def tw split: list.splits)
qed

lemma startup_Inl_iff:
  "startup e = Inl 1 \<longleftrightarrow>
     falsy (e ''MYSQL_HOST'') \<or> falsy (e ''MYSQL_USER'') \<or> falsy (e ''MYSQL_PASSWORD'') \<or> falsy (e ''MYSQL_DATABASE'')"
  by (auto simp: startup_def falsy_def split: option.splits)

lemma startup_Inr:
  assumes "\<not> falsy (e ''MYSQL_HOST'')" and "\<not> falsy (e ''MYSQL_USER'')"
    and "\<not> falsy (e ''MYSQL_PASSWORD'')" and "\<not> falsy (e ''MYSQL_DATABASE'')"
  shows "\<exists>h u p d. e ''MYSQL_HOST'' = Some h \<and> e ''MYSQL_USER'' = Some u \<and> e ''MYSQL_PASSWORD'' = Some p
            \<and> e ''MYSQL_DATABASE'' = Some d
            \<and> startup e = Inr \<lparr>connection_config = \<lparr>host = h, user = u, password = p, database = d, port = MYSQL_PORT e\<rparr>,
                                allow_write_ops = MYSQL_ALLOW_WRITE_OPS e\<rparr>"
  using assms by (auto simp: startup_def falsy_def split: option.splits)

text \<open>
  The claim C10 as stated gives NaN for every set, non-numeric value of
  \<open>MYSQL_PORT\<close>. The value \<open>12abc\<close> is not numeric, and the port parsed from it is
  12: \<open>parseInt\<close> reads the leading digits and ignores the rest.
\<close>

theorem port_counterexample:
  "\<not> is_numeric ''12abc''
   \<and> sample_env ''12abc'' ''MYSQL_PORT'' = Some ''12abc''
   \<and> startup (sample_env ''12abc'')
      = Inr \<lparr>connection_config = \<lparr>host = ''localhost'', user = ''app'', password = ''secret'',
                                    database = ''shop'', port = Some 12\<rparr>,
             allow_write_ops = False\<rparr>"
  by (simp add: is_numeric_def sample_env_def startup_def falsy_def MYSQL_PORT_def MYSQL_ALLOW_WRITE_OPS_def
      parseInt_def string_eval)

text \<open>
  C10 (amended). Startup exits with code 1 exactly when one of host, user, password,
  database is unset or empty; the port takes no part in that test. When the four are
  present and \<open>MYSQL_PORT\<close> is set to a non-empty text, the server starts, the port
  of its configuration is NaN exactly when the text does not begin, after leading white
  space and an optional sign, with a decimal digit, and a query is served with that
  configuration handed to \<open>createConnection\<close>.
\<close>

theorem port_unvalidated:
  "(startup e = Inl 1 \<longleftrightarrow>
      falsy (e ''MYSQL_HOST'') \<or> falsy (e ''MYSQL_USER'') \<or> falsy (e ''MYSQL_PASSWORD'') \<or> falsy (e ''MYSQL_DATABASE''))
   \<and> (\<not> falsy (e ''MYSQL_HOST'') \<and> \<not> falsy (e ''MYSQL_USER'') \<and> \<not> falsy (e ''MYSQL_PASSWORD'')
        \<and> \<not> falsy (e ''MYSQL_DATABASE'') \<and> e ''MYSQL_PORT'' = Some p \<and> p \<noteq> []
      \<longrightarrow> (\<exists>st. startup e = Inr st
               \<and> (port (connection_config st) = None \<longleftrightarrow> \<not> integer_start p)
               \<and> serve e drv ''query'' (sql_args ''SELECT 1'')
                  = Inr (Return (fst (executeQuery (connection_config st) drv ''SELECT 1'')),
                         snd (executeQuery (connection_config st) drv ''SELECT 1''))
               \<and> (\<exists>tr. snd (executeQuery (connection_config st) drv ''SELECT 1'')
                        = CreateConnection (connection_config st) # tr)))"
proof -
  have n: "normalized ''SELECT 1'' = ''select 1''" by (simp add: string_eval)
  have m: "map_of [(''sql'', JStr ''SELECT 1'')] ''sql'' = Some (JStr ''SELECT 1'')" by simp
  have q: "\<And>allow cfg. CallTool_handler allow cfg drv ''query'' (sql_args ''SELECT 1'')
             = (Return (fst (executeQuery cfg drv ''SELECT 1'')), snd (executeQuery cfg drv ''SELECT 1''))"
    using handler_query [OF m] by (simp add: n startsWith_def sql_args_def)
  have h: "\<And>cfg. \<exists>tr. snd (executeQuery cfg drv ''SELECT 1'') = CreateConnection cfg # tr"
    by (simp add: executeQuery_def try_executeQuery_def split: option.splits sum.splits)
  have "\<not> falsy (e ''MYSQL_HOST'') \<Longrightarrow> \<not> falsy (e ''MYSQL_USER'') \<Longrightarrow> \<not> falsy (e ''MYSQL_PASSWORD'')
        \<Longrightarrow> \<not> falsy (e ''MYSQL_DATABASE'') \<Longrightarrow> e ''MYSQL_PORT'' = Some p \<Longrightarrow> p \<noteq> []
      \<Longrightarrow> (\<exists>st. startup e = Inr st
               \<and> (port (connection_config st) = None \<longleftrightarrow> \<not> integer_start p)
               \<and> serve e drv ''query'' (sql_args ''SELECT 1'')
                  = Inr (Return (fst (executeQuery (connection_config st) drv ''SELECT 1'')),
                         snd (executeQuery (connection_config st) drv ''SELECT 1''))
               \<and> (\<exists>tr. snd (executeQuery (connection_config st) drv ''SELECT 1'')
                        = CreateConnection (connection_config st) # tr))"
  proof -
    assume a: "\<not> falsy (e ''MYSQL_HOST'')" "\<not> falsy (e ''MYSQL_USER'')" "\<not> falsy (e ''MYSQL_PASSWORD'')"
      "\<not> falsy (e ''MYSQL_DATABASE'')" and pp: "e ''MYSQL_PORT'' = Some p" "p \<noteq> []"
    from startup_Inr [OF a] obtain st where s: "startup e = Inr st"
      and c: "port (connection_config st) = MYSQL_PORT e" by auto
    have "MYSQL_PORT e = parseInt p" using pp by (simp add: MYSQL_PORT_def)
    then have "port (connection_config st) = None \<longleftrightarrow> \<not> integer_start p"
      using c by (simp add: parseInt_None_iff)
    then show ?thesis using s q h by (simp add: serve_def)
  qed
  then show ?thesis using startup_Inl_iff [of e] by blast
qed

theorem port_unvalidated_witness:
  "startup (sample_env ''abc'')
     = Inr \<lparr>connection_config = \<lparr>host = ''localhost'', user = ''app'', password = ''secret'',
                                   database = ''shop'', port = None\<rparr>,
            allow_write_ops = False\<rparr>
   \<and> serve (sample_env ''abc'') driver_ok ''query'' (sql_args ''SELECT 1'')
     = Inr (Return (fst (executeQuery \<lparr>host = ''localhost'', user = ''app'', password = ''secret'',
                                        database = ''shop'', port = None\<rparr> driver_ok ''SELECT 1'')),
            snd (executeQuery \<lparr>host = ''localhost'', user = ''app'', password = ''secret'',
                                database = ''shop'', port = None\<rparr> driver_ok ''SELECT 1''))"
proof -
  have s: "startup (sample_env ''abc'')
     = Inr \<lparr>connection_config = \<lparr>host = ''localhost'', user = ''app'', password = ''secret'',
                                   database = ''shop'', port = None\<rparr>,
            allow_write_ops = False\<rparr>"
    by (simp add: sample_env_def startup_def falsy_def MYSQL_PORT_def MYSQL_ALLOW_WRITE_OPS_def
        parseInt_def string_eval)
  have f: "\<not> falsy (sample_env ''abc'' ''MYSQL_HOST'')" "\<not> falsy (sample_env ''abc'' ''MYSQL_USER'')"
    "\<not> falsy (sample_env ''abc'' ''MYSQL_PASSWORD'')" "\<not> falsy (sample_env ''abc'' ''MYSQL_DATABASE'')"
    "sample_env ''abc'' ''MYSQL_PORT'' = Some ''abc''"
    by (simp_all add: sample_env_def falsy_def)
  show ?thesis
    using port_unvalidated [of "sample_env ''abc''" "''abc''" driver_ok] f s
    by simp
qed

section \<open>The serialised result of a read\<close>

subsection \<open>Decimal digits\<close>

lemma isDigit_char_of: "d < (10 :: nat) \<Longrightarrow> isDigit (char_of (48 + d))"
  by (simp add: isDigit_def Let_def)

lemma decimal_digits: "list_all isDigit (decimal k)"
proof (induction k rule: decimal.induct)
  case (1 n)
  show ?case
  proof (cases "n < 10")
    case True
    then show ?thesis by (subst decimal.simps) (simp add: isDigit_char_of)
  next
    case False
    then have "list_all isDigit (decimal (n div 10))" using "1" by simp
    moreover have "isDigit (char_of (48 + n mod 10))" by (rule isDigit_char_of) simp
    ultimately show ?thesis using False by (subst decimal.simps) simp
  qed
qed

lemma digits_value_snoc: "digits_value (s @ [c]) = 10 * digits_value s + (of_char c - 48)"
  by simp

lemma digits_value_decimal: "digits_value (decimal k) = k"
proof (induction k rule: decimal.induct)
  case (1 n)
  show ?case
  proof (cases "n < 10")
    case True
    then show ?thesis by (subst decimal.simps) simp
  next
    case False
    then have ih: "digits_value (decimal (n div 10)) = n div 10" using "1" by simp
    have "digits_value (decimal n) = digits_value (decimal (n div 10) @ [char_of (48 + n mod 10)])"
      using False by (subst decimal.simps) simp
    also have "\<dots> = 10 * (n div 10) + n mod 10"
      unfolding digits_value_snoc ih by simp
    finally show ?thesis by simp
  qed
qed

lemma integer_toString_nonneg: "0 \<le> n \<Longrightarrow> integer_toString n = decimal (nat n)"
  by (simp add: integer_toString_def)

lemma integer_toString_big: "integer_toString 9007199254740993 = ''9007199254740993''"
  by (simp add: integer_toString_def decimal.simps char_of_def bit_0)

subsection \<open>Quoting leaves the text of an integer as it is\<close>

lemma QuoteJSONString_unit_digit: "isDigit c \<Longrightarrow> QuoteJSONString_unit c = [c]"
  by (simp add: isDigit_def QuoteJSONString_unit_def Let_def)

lemma QuoteJSONString_digits: "list_all isDigit s \<Longrightarrow> QuoteJSONString s = quoted s"
proof -
  assume "list_all isDigit s"
  then have "concat (map QuoteJSONString_unit s) = s"
    by (induction s) (simp_all add: QuoteJSONString_unit_digit)
  then show ?thesis by (simp add: QuoteJSONString_def)
qed

lemma QuoteJSONString_unit_minus: "QuoteJSONString_unit CHR ''-'' = ''-''"
  by (simp add: QuoteJSONString_unit_def)

lemma QuoteJSONString_integer: "QuoteJSONString (integer_toString n) = quoted (integer_toString n)"
proof -
  have "\<And>k. concat (map QuoteJSONString_unit (decimal k)) = decimal k"
    using QuoteJSONString_digits [OF decimal_digits] by (simp add: QuoteJSONString_def quoted_def)
  then show ?thesis
    by (simp add: QuoteJSONString_def integer_toString_def QuoteJSONString_unit_minus)
qed

subsection \<open>The serialiser by the kind of value\<close>

lemma Serialize_JBigInt:
  "SerializeJSONProperty ind (JBigInt n) = Inr (quoted (integer_toString n))"
  by (subst SerializeJSONProperty.simps) (simp add: replacer_def QuoteJSONString_integer)

lemma Serialize_JArr:
  "SerializeJSONProperty ind (JArr xs) =
     (case collect (map (SerializeJSONProperty (ind @ gap)) xs) of
        Inl e \<Rightarrow> Inl e
      | Inr partial \<Rightarrow> Inr (wrap_members CHR ''['' CHR '']'' ind partial))"
  by (subst SerializeJSONProperty.simps) (simp add: replacer_def)

lemma Serialize_JObj:
  "SerializeJSONProperty ind (JObj kvs) =
     (case collect (map (\<lambda>kv. case SerializeJSONProperty (ind @ gap) (snd kv) of
                                  Inl e \<Rightarrow> Inl e
                                | Inr strP \<Rightarrow> Inr (QuoteJSONString (fst kv) @ '': '' @ strP)) kvs) of
        Inl e \<Rightarrow> Inl e
      | Inr partial \<Rightarrow> Inr (wrap_members CHR ''{'' CHR ''}'' ind partial))"
  by (subst SerializeJSONProperty.simps) (simp add: replacer_def)

lemma Serialize_primitive:
  "SerializeJSONProperty ind JNull = Inr ''null''"
  "SerializeJSONProperty ind (JBool b) = Inr (if b then ''true'' else ''false'')"
  "SerializeJSONProperty ind (JNum i) = Inr (integer_toString i)"
  "SerializeJSONProperty ind (JStr s) = Inr (QuoteJSONString s)"
  by (subst SerializeJSONProperty.simps, simp add: replacer_def)+

subsection \<open>Members of arrays and objects\<close>

lemma collect_map_Inr:
  assumes "\<And>x. x \<in> set xs \<Longrightarrow> \<exists>t. f x = Inr t"
  shows "\<exists>ts. collect (map f xs) = Inr ts \<and> (\<forall>x \<in> set xs. \<exists>t \<in> set ts. f x = Inr t)"
  using assms
proof (induction xs)
  case Nil
  then show ?case by simp
next
  case (Cons x xs)
  then obtain t where t: "f x = Inr t" by auto
  from Cons obtain ts where ts: "collect (map f xs) = Inr ts" "\<forall>x \<in> set xs. \<exists>t \<in> set ts. f x = Inr t"
    by auto
  have "collect (map f (x # xs)) = Inr (t # ts)" using t ts(1) by simp
  moreover have "\<forall>y \<in> set (x # xs). \<exists>u \<in> set (t # ts). f y = Inr u" using t ts(2) by auto
  ultimately show ?case by blast
qed

lemma sublist_join: "x \<in> set xs \<Longrightarrow> sublist x (join sep xs)"
proof (induction sep xs rule: join.induct)
  case (1 sep)
  then show ?case by simp
next
  case (2 sep y)
  then show ?case by simp
next
  case (3 sep y z zs)
  show ?case
  proof (cases "x = y")
    case True
    then show ?thesis by simp
  next
    case False
    then have "sublist x (join sep (z # zs))" using 3 by simp
    then obtain p s where "join sep (z # zs) = p @ x @ s" by (auto simp: sublist_def)
    then have "join sep (y # z # zs) = (y @ sep @ p) @ x @ s" by simp
    then show ?thesis unfolding sublist_def by blast
  qed
qed

lemma sublist_wrap_members: "x \<in> set partial \<Longrightarrow> sublist x (wrap_members opening closing ind partial)"
proof -
  assume a: "x \<in> set partial"
  then have ne: "partial \<noteq> []" by auto
  from sublist_join [OF a, of "[CHR '','', CHR 0x0A] @ ind @ gap"] obtain p s
    where "join ([CHR '','', CHR 0x0A] @ ind @ gap) partial = p @ x @ s"
    by (auto simp: sublist_def)
  then have "wrap_members opening closing ind partial
             = ([opening, CHR 0x0A] @ ind @ gap @ p) @ x @ (s @ [CHR 0x0A] @ ind @ [closing])"
    using ne by (simp add: wrap_members_def)
  then show ?thesis unfolding sublist_def by blast
qed

subsection \<open>No exception, and every bigint in the text\<close>

text \<open>
  With the source's replacer the serialiser never reaches the case that throws: by
  induction on the value, every value has a text.
\<close>

lemma Serialize_total: "\<exists>t. SerializeJSONProperty ind v = Inr t"
proof (induction v arbitrary: ind)
  case (JArr xs)
  then have "\<And>x. x \<in> set xs \<Longrightarrow> \<exists>t. SerializeJSONProperty (ind @ gap) x = Inr t" by blast
  from collect_map_Inr [of xs "SerializeJSONProperty (ind @ gap)", OF this] obtain ts
    where "collect (map (SerializeJSONProperty (ind @ gap)) xs) = Inr ts" by blast
  then show ?case by (simp add: Serialize_JArr)
next
  case (JObj kvs)
  let ?f = "\<lambda>kv. case SerializeJSONProperty (ind @ gap) (snd kv) of
                    Inl e \<Rightarrow> Inl e
                  | Inr strP \<Rightarrow> Inr (QuoteJSONString (fst kv) @ '': '' @ strP)"
  have "\<And>kv. kv \<in> set kvs \<Longrightarrow> \<exists>t. ?f kv = Inr t"
  proof -
    fix kv assume "kv \<in> set kvs"
    moreover have "snd kv \<in> Basic_BNFs.snds kv" by (cases kv) simp
    ultimately obtain t where "SerializeJSONProperty (ind @ gap) (snd kv) = Inr t"
      using JObj by blast
    then show "\<exists>t. ?f kv = Inr t" by simp
  qed
  from collect_map_Inr [of kvs ?f, OF this] obtain ts where "collect (map ?f kvs) = Inr ts" by blast
  then show ?case by (simp add: Serialize_JObj)
qed (simp_all add: Serialize_primitive Serialize_JBigInt)

lemma Serialize_contains_bigint:
  "contains_bigint n v \<Longrightarrow> SerializeJSONProperty ind v = Inr t \<Longrightarrow> sublist (quoted (integer_toString n)) t"
proof (induction v arbitrary: ind t)
  case (JBigInt m)
  then show ?case by (simp add: Serialize_JBigInt)
next
  case (JArr xs)
  let ?f = "SerializeJSONProperty (ind @ gap)"
  from JArr.prems(1) obtain x where x: "x \<in> set xs" "contains_bigint n x"
    by (auto simp: list_ex_iff)
  have "\<And>y. y \<in> set xs \<Longrightarrow> \<exists>u. ?f y = Inr u" by (simp add: Serialize_total)
  from collect_map_Inr [of xs ?f, OF this] obtain ts
    where ts: "collect (map ?f xs) = Inr ts" "\<forall>y \<in> set xs. \<exists>u \<in> set ts. ?f y = Inr u" by blast
  from ts(2) x(1) obtain u where u: "u \<in> set ts" "?f x = Inr u" by blast
  have "sublist (quoted (integer_toString n)) u" using JArr.IH [OF x(1) x(2) u(2)] .
  moreover have "t = wrap_members CHR ''['' CHR '']'' ind ts"
    using JArr.prems(2) ts(1) by (simp add: Serialize_JArr)
  moreover have "sublist u (wrap_members CHR ''['' CHR '']'' ind ts)"
    using u(1) by (rule sublist_wrap_members)
  ultimately show ?case using sublist_order.order_trans by blast
next
  case (JObj kvs)
  let ?f = "\<lambda>kv. case SerializeJSONProperty (ind @ gap) (snd kv) of
                    Inl e \<Rightarrow> Inl e
                  | Inr strP \<Rightarrow> Inr (QuoteJSONString (fst kv) @ '': '' @ strP)"
  from JObj.prems(1) obtain kv where kv: "kv \<in> set kvs" "contains_bigint n (snd kv)"
    by (auto simp: list_ex_iff)
  have sn: "snd kv \<in> Basic_BNFs.snds kv" by (cases kv) simp
  have tot: "\<And>y. y \<in> set kvs \<Longrightarrow> \<exists>u. ?f y = Inr u"
  proof -
    fix y :: "string \<times> jsval"
    obtain w where "SerializeJSONProperty (ind @ gap) (snd y) = Inr w"
      using Serialize_total by blast
    then show "\<exists>u. ?f y = Inr u" by simp
  qed
  from collect_map_Inr [of kvs ?f, OF tot] obtain ts
    where ts: "collect (map ?f kvs) = Inr ts" "\<forall>y \<in> set kvs. \<exists>u \<in> set ts. ?f y = Inr u" by blast
  from ts(2) kv(1) obtain u where u: "u \<in> set ts" "?f kv = Inr u" by blast
  obtain w where w: "SerializeJSONProperty (ind @ gap) (snd kv) = Inr w"
    using Serialize_total by blast
  have "sublist (quoted (integer_toString n)) w" using JObj.IH [OF kv(1) sn kv(2) w] .
  moreover have "u = (QuoteJSONString (fst kv) @ '': '') @ w" using u(2) w by simp
  then have "sublist w u" by (simp only: sublist_append_leftI)
  moreover have "t = wrap_members CHR ''{'' CHR ''}'' ind ts"
    using JObj.prems(2) ts(1) by (simp add: Serialize_JObj)
  moreover have "sublist u (wrap_members CHR ''{'' CHR ''}'' ind ts)"
    using u(1) by (rule sublist_wrap_members)
  ultimately show ?case using sublist_order.order_trans by blast
qed simp_all

lemma sample_text:
  "JSON_stringify (json_view sample_result)
     = Inr ([CHR ''['', CHR 0x0A] @ ''  {'' @ [CHR 0x0A]
            @ ''    '' @ quoted ''id'' @ '': '' @ quoted ''9007199254740993'' @ '','' @ [CHR 0x0A]
            @ ''    '' @ quoted ''name'' @ '': '' @ quoted ''a'' @ [CHR 0x0A]
            @ ''  }'' @ [CHR 0x0A] @ '']'')"
  by (simp add: JSON_stringify_def sample_result_def Serialize_JArr Serialize_JObj Serialize_JBigInt
      Serialize_primitive wrap_members_def gap_def QuoteJSONString_def QuoteJSONString_unit_def
      quoted_def integer_toString_big)

text \<open>
  C6. After a successful read whose result holds a bigint \<open>n\<close> above \<open>2^53 - 1\<close>
  anywhere in its rows, the outcome is not an error, the connection was ended once (the
  serialisation threw nothing), and the text contains, between double quotes, the string
  \<open>integer_toString n\<close>; that string consists of decimal digits only (no exponent, no
  sign, no point) and denotes exactly \<open>n\<close>.
\<close>

theorem bigint_serialised_exactly:
  assumes "createConnection drv cfg = None" and "execute drv sql = Inr result"
    and "contains_bigint n (json_view result)" and "2 ^ 53 - 1 < n"
  shows "\<exists>t. executeQuery cfg drv sql
               = (\<lparr>content_text = t, isError = False\<rparr>, [CreateConnection cfg, Execute sql, EndConnection])
             \<and> sublist (quoted (integer_toString n)) t
             \<and> list_all isDigit (integer_toString n)
             \<and> int (digits_value (integer_toString n)) = n"
proof -
  obtain t where t: "JSON_stringify (json_view result) = Inr t"
    using Serialize_total by (auto simp: JSON_stringify_def)
  have e: "executeQuery cfg drv sql
             = (\<lparr>content_text = t, isError = False\<rparr>, [CreateConnection cfg, Execute sql, EndConnection])"
    using assms(1,2) t by (simp add: executeQuery_def try_executeQuery_def)
  have s: "sublist (quoted (integer_toString n)) t"
    using Serialize_contains_bigint [OF assms(3)] t by (simp add: JSON_stringify_def)
  have "0 \<le> n" using assms(4) by simp
  then have d: "integer_toString n = decimal (nat n)" by (rule integer_toString_nonneg)
  have "list_all isDigit (integer_toString n)" unfolding d by (rule decimal_digits)
  moreover have "int (digits_value (integer_toString n)) = n"
    unfolding d digits_value_decimal using \<open>0 \<le> n\<close> by simp
  ultimately show ?thesis using e s by blast
qed

theorem bigint_serialised_exactly_witness:
  "\<exists>t. executeQuery sample_config driver_ok ''SELECT id, name FROM t''
         = (\<lparr>content_text = t, isError = False\<rparr>,
            [CreateConnection sample_config, Execute ''SELECT id, name FROM t'', EndConnection])
       \<and> sublist (quoted ''9007199254740993'') t"
proof -
  have c: "createConnection driver_ok sample_config = None" by (simp add: driver_ok_def)
  have e: "execute driver_ok ''SELECT id, name FROM t'' = Inr sample_result" by (simp add: driver_ok_def)
  have b: "contains_bigint 9007199254740993 (json_view sample_result)" by (simp add: sample_result_def)
  have g: "2 ^ 53 - 1 < (9007199254740993 :: int)" by simp
  show ?thesis
    using bigint_serialised_exactly [OF c e b g] by (auto simp: integer_toString_big)
qed

end
